theory Spec2Isabelle
  imports Main "HOL-Library.Word"
begin

section \<open>The contact API of \<^verbatim>\<open>src/server.js\<close>\<close>

text \<open>
  The server is a set of Express route handlers over three MongoDB collections. The
  embedding makes the database an explicit value that every handler takes and
  returns, together with the HTTP response. Each handler below follows the statements
  of its JavaScript body in order; an early \<^verbatim>\<open>return res.status(..)\<close> is a branch that
  returns the database it received.

  Conventions:
  \<^item> A JavaScript string is a \<open>string\<close>; a character outside ASCII stands as the bytes of
    its UTF-8 encoding, which is what the response carries on the wire. No byte of such
    an encoding is an ASCII digit, so the digit filter and the length of a filtered
    phone number are the same in both readings.
  \<^item> A field of a JSON body, a header or a multipart text field is a \<open>string option\<close>:
    \<open>None\<close> is \<^verbatim>\<open>undefined\<close>. Body fields that hold a JSON number, boolean, object or
    array are outside this model.
  \<^item> \<^verbatim>\<open>new Date()\<close> is an argument \<open>now\<close> of the handler (milliseconds).
  \<^item> The only store error modelled is the duplicate-key rejection of the unique index
    (code 11000); transport failures of the driver are outside this model.
\<close>

subsection \<open>Documents\<close>

record contact =
  oid :: "nat option"
  name :: string
  phone_number :: string
  link :: string
  created_at :: nat

record broadcast =
  b_oid :: "nat option"
  message :: string
  b_created_at :: nat

record vip_media =
  m_oid :: "nat option"
  file_url :: string
  caption :: string
  media_type :: string
  m_created_at :: nat

subsection \<open>The database and the driver calls\<close>

datatype coll = Contacts | Broadcasts | Vip_photos

datatype store_call = CountDocuments | Find | FindOne | InsertOne | UpdateOne | DeleteOne

text \<open>
  \<open>calls\<close> is the trace of driver calls made so far: it lets a theorem say that a
  request reached the store or did not. \<open>next_oid\<close> is the supply of fresh
  \<^verbatim>\<open>_id\<close> values.
\<close>

record db =
  contacts :: "contact list"
  broadcasts :: "broadcast list"
  vip_photos :: "vip_media list"
  next_oid :: nat
  calls :: "(coll \<times> store_call) list"

datatype mongo_error = DuplicateKey

definition logged :: "coll \<Rightarrow> store_call \<Rightarrow> db \<Rightarrow> db" where
  "logged c k d = d\<lparr>calls := calls d @ [(c, k)]\<rparr>"

text \<open>
  \<^verbatim>\<open>contactsCollection.insertOne(doc)\<close> under the unique index on \<^verbatim>\<open>phone_number\<close>
  that \<^verbatim>\<open>connectDB\<close> creates: a document whose phone number is already present is
  rejected with code 11000; otherwise the driver gives it an \<^verbatim>\<open>_id\<close> and it is
  appended.
\<close>

definition contacts_insertOne :: "contact \<Rightarrow> db \<Rightarrow> (mongo_error + contact) \<times> db" where
  "contacts_insertOne doc d =
     (let d1 = logged Contacts InsertOne d in
      if phone_number doc \<in> set (map phone_number (contacts d))
      then (Inl DuplicateKey, d1)
      else
        (let doc' = doc\<lparr>oid := Some (next_oid d)\<rparr>
         in (Inr doc', d1\<lparr>contacts := contacts d @ [doc'], next_oid := Suc (next_oid d)\<rparr>)))"

datatype contact_filter = By_phone string | By_id nat

fun matches :: "contact_filter \<Rightarrow> contact \<Rightarrow> bool" where
  "matches (By_phone p) c = (phone_number c = p)"
| "matches (By_id i) c = (oid c = Some i)"

text \<open>The \<^verbatim>\<open>update\<close> object of the two update handlers: only the fields that were set.\<close>

record update_doc =
  set_name :: "string option"
  set_phone_number :: "string option"

definition apply_set :: "update_doc \<Rightarrow> contact \<Rightarrow> contact" where
  "apply_set u c =
     c\<lparr>name := (case set_name u of None \<Rightarrow> name c | Some n \<Rightarrow> n),
       phone_number := (case set_phone_number u of None \<Rightarrow> phone_number c | Some p \<Rightarrow> p)\<rparr>"

fun update_first :: "('a \<Rightarrow> bool) \<Rightarrow> ('a \<Rightarrow> 'a) \<Rightarrow> 'a list \<Rightarrow> 'a list" where
  "update_first P f [] = []"
| "update_first P f (x # xs) = (if P x then f x # xs else x # update_first P f xs)"

fun delete_first :: "('a \<Rightarrow> bool) \<Rightarrow> 'a list \<Rightarrow> 'a list" where
  "delete_first P [] = []"
| "delete_first P (x # xs) = (if P x then xs else x # delete_first P xs)"

text \<open>
  \<^verbatim>\<open>updateOne(filter, {$set: update})\<close>: the first matching document is updated in
  place; the result is \<^verbatim>\<open>matchedCount\<close>. The unique index rejects the write when
  another document already holds the new phone number.
\<close>

definition contacts_updateOne ::
  "contact_filter \<Rightarrow> update_doc \<Rightarrow> db \<Rightarrow> (mongo_error + nat) \<times> db" where
  "contacts_updateOne f u d =
     (let d1 = logged Contacts UpdateOne d in
      case List.find (matches f) (contacts d) of
        None \<Rightarrow> (Inr 0, d1)
      | Some c \<Rightarrow>
          if phone_number (apply_set u c) \<in> set (map phone_number (remove1 c (contacts d)))
          then (Inl DuplicateKey, d1)
          else (Inr 1, d1\<lparr>contacts := update_first (matches f) (apply_set u) (contacts d)\<rparr>))"

definition contacts_findOne :: "contact_filter \<Rightarrow> db \<Rightarrow> contact option \<times> db" where
  "contacts_findOne f d = (List.find (matches f) (contacts d), logged Contacts FindOne d)"

definition contacts_deleteOne :: "contact_filter \<Rightarrow> db \<Rightarrow> nat \<times> db" where
  "contacts_deleteOne f d =
     (let d1 = logged Contacts DeleteOne d in
      case List.find (matches f) (contacts d) of
        None \<Rightarrow> (0, d1)
      | Some c \<Rightarrow> (1, d1\<lparr>contacts := delete_first (matches f) (contacts d)\<rparr>))"

text \<open>\<^verbatim>\<open>find({}).toArray()\<close>: every document, in the order the collection holds them.\<close>

definition contacts_find_all :: "db \<Rightarrow> contact list \<times> db" where
  "contacts_find_all d = (contacts d, logged Contacts Find d)"

subsection \<open>Responses\<close>

datatype body =
    Error string
  | Vcf string
  | Message string
  | Message_contact string "contact option"
  | Contacts_list "contact list"
  | Success_post broadcast
  | Success_media vip_media
  | Latest "broadcast option"

datatype response = Response nat body

subsection \<open>Request values\<close>

text \<open>\<^verbatim>\<open>!v\<close> on an absent or string value: true for \<^verbatim>\<open>undefined\<close> and for the empty string.\<close>

definition str :: "string option \<Rightarrow> string" where
  "str v = (case v of None \<Rightarrow> [] | Some s \<Rightarrow> s)"

definition falsy :: "string option \<Rightarrow> bool" where
  "falsy v = (str v = [])"

subsection \<open>Phone normalisation\<close>

text \<open>
  \<^verbatim>\<open>\D\<close> without the unicode flag is the complement of \<^verbatim>\<open>[0-9]\<close>, the code units 48
  to 57. \<^verbatim>\<open>s.replace(/\D/g, "")\<close> walks the string and drops every match.
\<close>

definition non_digit :: "char \<Rightarrow> bool" where
  "non_digit c = ((of_char c :: nat) < 48 \<or> 57 < (of_char c :: nat))"

fun replace_non_digits :: "string \<Rightarrow> string" where
  "replace_non_digits [] = []"
| "replace_non_digits (c # cs) =
     (if non_digit c then replace_non_digits cs else c # replace_non_digits cs)"

text \<open>
  The two lines that every handler taking a phone number repeats:
  \<^verbatim>\<open>const cleanedPhone = phone.replace(/\D/g, "");\<close>
  \<^verbatim>\<open>if (cleanedPhone.length < 10 || cleanedPhone.length > 15) return 400\<close>.
  The handlers differ only in the text of the 400 message, so the fragment returns the
  rejection as a value and each handler attaches its own message.
\<close>

datatype phone_error = InvalidPhone

definition clean_phone :: "string \<Rightarrow> phone_error + string" where
  "clean_phone phone =
     (let cleanedPhone = replace_non_digits phone in
      if length cleanedPhone < 10 \<or> length cleanedPhone > 15
      then Inl InvalidPhone else Inr cleanedPhone)"

subsection \<open>Registration: \<^verbatim>\<open>POST /api/contacts\<close>\<close>

definition SUPPORT_LINK :: string where
  "SUPPORT_LINK = ''https://whatsapp.com/channel/0029Vb6b864Id7nIEgOrMe24''"

definition blockedNumbers :: "string list" where
  "blockedNumbers = [''254713380848'', ''254712345678'']"

text \<open>The message of the register handler has an en dash, here as its three UTF-8 bytes.\<close>

definition invalid_phone_register :: string where
  "invalid_phone_register =
     ''Invalid phone number (10'' @ [CHR 0xE2, CHR 0x80, CHR 0x93] @ ''15 digits)''"

definition post_contacts :: "nat \<Rightarrow> string option \<Rightarrow> string option \<Rightarrow> db \<Rightarrow> response \<times> db" where
  "post_contacts now name_field phone_field d =
     (if falsy name_field \<or> falsy phone_field
      then (Response 400 (Error ''Name and phone number are required''), d)
      else
        case clean_phone (str phone_field) of
          Inl InvalidPhone \<Rightarrow> (Response 400 (Error invalid_phone_register), d)
        | Inr cleanedPhone \<Rightarrow>
            if cleanedPhone \<in> set blockedNumbers
            then (Response 403 (Error ''This number is restricted from registering.''), d)
            else
              (let newContact = \<lparr>oid = None, name = str name_field, phone_number = cleanedPhone,
                                 link = SUPPORT_LINK, created_at = now\<rparr>
               in case contacts_insertOne newContact d of
                    (Inr stored, d') \<Rightarrow>
                      (Response 201 (Message_contact ''Contact saved successfully'' (Some stored)), d')
                  | (Inl DuplicateKey, d') \<Rightarrow>
                      (Response 409 (Error ''Phone number already registered''), d')))"

subsection \<open>Export: \<^verbatim>\<open>GET /api/contacts/download\<close>\<close>

definition nl :: string where
  "nl = [CHR 0x0A]"

text \<open>
  The decorative marker appended to the display name is an emoji literal that differs
  between the two variants of the server; here as UTF-8 bytes (U+1F480 and U+1F525).
  The handler takes it as a parameter.
\<close>

definition suffix_vip_variant :: string where
  "suffix_vip_variant = [CHR 0xF0, CHR 0x9F, CHR 0x92, CHR 0x80]"

definition suffix_plain_variant :: string where
  "suffix_plain_variant = [CHR 0xF0, CHR 0x9F, CHR 0x94, CHR 0xA5]"

text \<open>The body of the \<^verbatim>\<open>forEach\<close> callback: six \<^verbatim>\<open>vcfContent += ...\<close> statements.\<close>

definition append_vcard :: "string \<Rightarrow> string \<Rightarrow> contact \<Rightarrow> string" where
  "append_vcard suffix vcfContent c =
     (let displayName = name c @ suffix;
          v1 = vcfContent @ ''BEGIN:VCARD'' @ nl;
          v2 = v1 @ ''VERSION:3.0'' @ nl;
          v3 = v2 @ ''FN:'' @ displayName @ nl;
          v4 = v3 @ ''N:'' @ displayName @ '';;;;'' @ nl;
          v5 = v4 @ ''TEL;TYPE=CELL:'' @ phone_number c @ nl
      in v5 @ ''END:VCARD'' @ nl @ nl)"

definition get_contacts_download :: "string \<Rightarrow> db \<Rightarrow> response \<times> db" where
  "get_contacts_download suffix d =
     (case contacts_find_all d of
        (found, d1) \<Rightarrow>
          if length found = 0
          then (Response 404 (Error ''No contacts available''), d1)
          else (Response 200 (Vcf (foldl (append_vcard suffix) [] found)), d1))"

subsection \<open>Self update: \<^verbatim>\<open>PUT /api/contacts\<close>\<close>

text \<open>
  Both update handlers build the \<^verbatim>\<open>update\<close> object with the same statements:
  \<^verbatim>\<open>if (name) update.name = name\<close>, then, when a phone number is given, the
  normalisation fragment and \<^verbatim>\<open>update.phone_number = cleanedPhone\<close>.
\<close>

definition build_update :: "string option \<Rightarrow> string option \<Rightarrow> phone_error + update_doc" where
  "build_update name_field phone_field =
     (let update0 = \<lparr>set_name = None, set_phone_number = None\<rparr>;
          update1 = (if falsy name_field then update0
                     else update0\<lparr>set_name := Some (str name_field)\<rparr>)
      in if falsy phone_field then Inr update1
         else case clean_phone (str phone_field) of
                Inl e \<Rightarrow> Inl e
              | Inr cleanedPhone \<Rightarrow> Inr (update1\<lparr>set_phone_number := Some cleanedPhone\<rparr>))"

definition put_contacts ::
  "string option \<Rightarrow> string option \<Rightarrow> string option \<Rightarrow> db \<Rightarrow> response \<times> db" where
  "put_contacts old_phone_number new_name new_phone_number d =
     (if falsy old_phone_number \<or> (falsy new_name \<and> falsy new_phone_number)
      then (Response 400 (Error
              ''Required data missing contact dev Nutterx +254713881613 to update for you.''), d)
      else
        case build_update new_name new_phone_number of
          Inl InvalidPhone \<Rightarrow> (Response 400 (Error ''Invalid phone number''), d)
        | Inr update \<Rightarrow>
            (case contacts_updateOne (By_phone (str old_phone_number)) update d of
               (Inl DuplicateKey, d1) \<Rightarrow>
                 (Response 409 (Error ''Phone number already registered''), d1)
             | (Inr matchedCount, d1) \<Rightarrow>
                 if matchedCount = 0 then (Response 404 (Error ''Contact not found''), d1)
                 else
                   (case contacts_findOne
                           (By_phone (case set_phone_number update of
                                        Some p \<Rightarrow> p | None \<Rightarrow> str old_phone_number)) d1 of
                      (updatedContact, d2) \<Rightarrow>
                        (Response 200
                           (Message_contact ''Contact updated successfully'' updatedContact), d2))))"

subsection \<open>The admin guard and the admin routes\<close>

definition adminAuth ::
  "string \<Rightarrow> string option \<Rightarrow> (db \<Rightarrow> response \<times> db) \<Rightarrow> db \<Rightarrow> response \<times> db" where
  "adminAuth ADMIN_KEY key next_handler d =
     (if falsy key \<or> str key \<noteq> ADMIN_KEY
      then (Response 401 (Error ''Unauthorized''), d)
      else next_handler d)"

definition broadcasts_insertOne :: "broadcast \<Rightarrow> db \<Rightarrow> broadcast \<times> db" where
  "broadcasts_insertOne doc d =
     (let doc' = doc\<lparr>b_oid := Some (next_oid d)\<rparr>
      in (doc', (logged Broadcasts InsertOne d)
                  \<lparr>broadcasts := broadcasts d @ [doc'], next_oid := Suc (next_oid d)\<rparr>))"

definition post_admin_broadcast :: "nat \<Rightarrow> string option \<Rightarrow> db \<Rightarrow> response \<times> db" where
  "post_admin_broadcast now message_field d =
     (if falsy message_field then (Response 400 (Error ''Message required''), d)
      else
        (let post = \<lparr>b_oid = None, message = str message_field, b_created_at = now\<rparr>
         in case broadcasts_insertOne post d of
              (stored, d1) \<Rightarrow> (Response 200 (Success_post stored), d1)))"

text \<open>\<^verbatim>\<open>find({}).sort({ created_at: 1 }).toArray()\<close>; ties keep the collection's order.\<close>

definition get_admin_contacts :: "db \<Rightarrow> response \<times> db" where
  "get_admin_contacts d =
     (Response 200 (Contacts_list (sort_key created_at (contacts d))), logged Contacts Find d)"

text \<open>
  \<^verbatim>\<open>new ObjectId(id)\<close> belongs to the driver, not to this repository: it is the
  parameter \<open>mkObjectId\<close>, with \<open>None\<close> for a thrown error. A throw lands in the
  handler's \<^verbatim>\<open>catch\<close>; the error has no \<^verbatim>\<open>code\<close>, so the answer is the generic 500.
\<close>

definition put_admin_contacts ::
  "(string \<Rightarrow> nat option) \<Rightarrow> string \<Rightarrow> string option \<Rightarrow> string option \<Rightarrow> db \<Rightarrow> response \<times> db" where
  "put_admin_contacts mkObjectId id_param name_field phone_field d =
     (if falsy name_field \<and> falsy phone_field
      then (Response 400 (Error ''Nothing to update''), d)
      else
        case build_update name_field phone_field of
          Inl InvalidPhone \<Rightarrow> (Response 400 (Error ''Invalid phone number''), d)
        | Inr update \<Rightarrow>
            (case mkObjectId id_param of
               None \<Rightarrow> (Response 500 (Error ''Failed to update contact''), d)
             | Some i \<Rightarrow>
                 (case contacts_updateOne (By_id i) update d of
                    (Inl DuplicateKey, d1) \<Rightarrow>
                      (Response 409 (Error ''Phone number already registered''), d1)
                  | (Inr matchedCount, d1) \<Rightarrow>
                      if matchedCount = 0 then (Response 404 (Error ''Contact not found''), d1)
                      else
                        (case contacts_findOne (By_id i) d1 of
                           (updatedContact, d2) \<Rightarrow>
                             (Response 200
                                (Message_contact ''Contact updated successfully'' updatedContact),
                              d2)))))"

definition delete_admin_contacts :: "(string \<Rightarrow> nat option) \<Rightarrow> string \<Rightarrow> db \<Rightarrow> response \<times> db" where
  "delete_admin_contacts mkObjectId id_param d =
     (case mkObjectId id_param of
        None \<Rightarrow> (Response 500 (Error ''Failed to delete contact''), d)
      | Some i \<Rightarrow>
          (case contacts_deleteOne (By_id i) d of
             (deletedCount, d1) \<Rightarrow>
               if deletedCount = 0 then (Response 404 (Error ''Contact not found''), d1)
               else (Response 200 (Message ''Contact deleted successfully''), d1)))"

text \<open>
  The constructor of the current driver accepts a string of 24 hexadecimal digits and
  throws on any other string. The value is the number the digits denote.
\<close>

definition hex_digit :: "char \<Rightarrow> nat option" where
  "hex_digit c =
     (let n = (of_char c :: nat) in
      if 48 \<le> n \<and> n \<le> 57 then Some (n - 48)
      else if 97 \<le> n \<and> n \<le> 102 then Some (n - 87)
      else if 65 \<le> n \<and> n \<le> 70 then Some (n - 55)
      else None)"

fun hex_value :: "nat \<Rightarrow> string \<Rightarrow> nat option" where
  "hex_value acc [] = Some acc"
| "hex_value acc (c # cs) =
     (case hex_digit c of None \<Rightarrow> None | Some v \<Rightarrow> hex_value (16 * acc + v) cs)"

definition ObjectId :: "string \<Rightarrow> nat option" where
  "ObjectId s = (if length s = 24 then hex_value 0 s else None)"

subsection \<open>VIP media: \<^verbatim>\<open>POST /api/admin/vip/send-media\<close>\<close>

text \<open>A file part as multer's memory storage delivers it.\<close>

record upload =
  fieldname :: string
  mimetype :: string
  buffer :: "8 word list"

text \<open>\<^verbatim>\<open>buffer.toString("base64")\<close>: the standard alphabet, padded with \<^verbatim>\<open>=\<close>.\<close>

definition base64_alphabet :: string where
  "base64_alphabet = ''ABCDEFGHIJKLMNOPQRSTUVWXYZabcdefghijklmnopqrstuvwxyz0123456789+/''"

definition b64 :: "nat \<Rightarrow> char" where
  "b64 n = base64_alphabet ! (n mod 64)"

fun base64 :: "8 word list \<Rightarrow> string" where
  "base64 [] = []"
| "base64 [a] =
     (let x = unat a in [b64 (x div 4), b64 ((x mod 4) * 16), CHR ''='', CHR ''=''])"
| "base64 [a, b] =
     (let x = unat a; y = unat b
      in [b64 (x div 4), b64 ((x mod 4) * 16 + y div 16), b64 ((y mod 16) * 4), CHR ''=''])"
| "base64 (a # b # c # rest) =
     (let x = unat a; y = unat b; z = unat c
      in [b64 (x div 4), b64 ((x mod 4) * 16 + y div 16),
          b64 ((y mod 16) * 4 + z div 64), b64 (z mod 64)] @ base64 rest)"

text \<open>
  \<^verbatim>\<open>allowedTypes[type]\<close> is a property read on an object literal, so besides the three
  own keys it also finds the properties inherited from \<^verbatim>\<open>Object.prototype\<close>. None of
  those has an \<^verbatim>\<open>includes\<close> method: calling it throws a TypeError. An unknown key reads
  \<^verbatim>\<open>undefined\<close>, where \<^verbatim>\<open>?.\<close> stops and the test \<^verbatim>\<open>!undefined\<close> rejects.
\<close>

datatype property_read = Own "string list" | Inherited | Undefined

definition object_prototype_keys :: "string list" where
  "object_prototype_keys =
     [''constructor'', ''__defineGetter__'', ''__defineSetter__'', ''hasOwnProperty'',
      ''__lookupGetter__'', ''__lookupSetter__'', ''isPrototypeOf'', ''propertyIsEnumerable'',
      ''toString'', ''valueOf'', ''__proto__'', ''toLocaleString'']"

definition allowedTypes :: "string \<Rightarrow> property_read" where
  "allowedTypes key =
     (if key = ''photo'' then Own [''image/jpeg'', ''image/png'', ''image/webp'']
      else if key = ''video'' then Own [''video/mp4'', ''video/webm'']
      else if key = ''audio'' then Own [''audio/mpeg'', ''audio/mp3'', ''audio/ogg'']
      else if key \<in> set object_prototype_keys then Inherited
      else Undefined)"

text \<open>
  The module declares and assigns \<^verbatim>\<open>contactsCollection\<close>, \<^verbatim>\<open>broadcastCollection\<close> and
  \<^verbatim>\<open>vipMediaCollection\<close>. An identifier outside this table is not declared anywhere:
  evaluating it throws a ReferenceError.
\<close>

definition module_bindings :: "(string \<times> coll) list" where
  "module_bindings =
     [(''contactsCollection'', Contacts),
      (''broadcastCollection'', Broadcasts),
      (''vipMediaCollection'', Vip_photos)]"

definition resolve :: "string \<Rightarrow> coll option" where
  "resolve identifier = map_of module_bindings identifier"

definition media_insertOne :: "coll \<Rightarrow> vip_media \<Rightarrow> db \<Rightarrow> vip_media \<times> db" where
  "media_insertOne c doc d =
     (let doc' = doc\<lparr>m_oid := Some (next_oid d)\<rparr>
      in (doc', (logged c InsertOne d)
                  \<lparr>vip_photos := vip_photos d @ [doc'], next_oid := Suc (next_oid d)\<rparr>))"

text \<open>
  The handler runs after \<^verbatim>\<open>adminAuth\<close> and multer's \<^verbatim>\<open>upload.any()\<close>; \<open>files\<close> is
  \<^verbatim>\<open>req.files\<close>. The insert names the identifier \<^verbatim>\<open>vipPhotosCollection\<close>. Every
  throw inside the \<^verbatim>\<open>try\<close> is answered by the \<^verbatim>\<open>catch\<close> with the 500 message.
\<close>

definition post_vip_send_media ::
  "nat \<Rightarrow> upload list \<Rightarrow> string option \<Rightarrow> string option \<Rightarrow> db \<Rightarrow> response \<times> db" where
  "post_vip_send_media now files caption_field type_field d =
     (case (case List.find (\<lambda>f. fieldname f = ''file'') files of
              Some f \<Rightarrow> Some f
            | None \<Rightarrow> List.find (\<lambda>f. fieldname f = ''image'') files) of
        None \<Rightarrow> (Response 400 (Error ''Media file is required''), d)
      | Some uploadedFile \<Rightarrow>
          (let caption_v = (case caption_field of None \<Rightarrow> [] | Some c \<Rightarrow> c);
               type_v = (case type_field of None \<Rightarrow> ''photo'' | Some t \<Rightarrow> t)
           in case allowedTypes type_v of
                Inherited \<Rightarrow> (Response 500 (Error ''Failed to send VIP media''), d)
              | Undefined \<Rightarrow> (Response 400 (Error (''Invalid '' @ type_v @ '' file type'')), d)
              | Own allowed \<Rightarrow>
                  if mimetype uploadedFile \<notin> set allowed
                  then (Response 400 (Error (''Invalid '' @ type_v @ '' file type'')), d)
                  else
                    (let base64_v = base64 (buffer uploadedFile);
                         fileUrl = ''data:'' @ mimetype uploadedFile @ '';base64,'' @ base64_v;
                         media = \<lparr>m_oid = None, file_url = fileUrl, caption = caption_v,
                                  media_type = type_v, m_created_at = now\<rparr>
                     in case resolve ''vipPhotosCollection'' of
                          None \<Rightarrow> (Response 500 (Error ''Failed to send VIP media''), d)
                        | Some c \<Rightarrow>
                            (case media_insertOne c media d of
                               (stored, d1) \<Rightarrow> (Response 200 (Success_media stored), d1)))))"

text \<open>The five routes behind the guard, as one dispatcher.\<close>

datatype admin_request =
    Post_broadcast "string option"
  | Get_contacts
  | Put_contact string "string option" "string option"
  | Delete_contact string
  | Post_send_media "upload list" "string option" "string option"

fun admin_handler ::
  "(string \<Rightarrow> nat option) \<Rightarrow> nat \<Rightarrow> admin_request \<Rightarrow> db \<Rightarrow> response \<times> db" where
  "admin_handler mk now (Post_broadcast m) = post_admin_broadcast now m"
| "admin_handler mk now Get_contacts = get_admin_contacts"
| "admin_handler mk now (Put_contact i n p) = put_admin_contacts mk i n p"
| "admin_handler mk now (Delete_contact i) = delete_admin_contacts mk i"
| "admin_handler mk now (Post_send_media fs c t) = post_vip_send_media now fs c t"

definition admin_route ::
  "string \<Rightarrow> (string \<Rightarrow> nat option) \<Rightarrow> nat \<Rightarrow> string option \<Rightarrow> admin_request \<Rightarrow> db
     \<Rightarrow> response \<times> db" where
  "admin_route ADMIN_KEY mk now key req d = adminAuth ADMIN_KEY key (admin_handler mk now req) d"

subsection \<open>Latest broadcast: \<^verbatim>\<open>GET /api/broadcast/latest\<close>\<close>

text \<open>
  \<^verbatim>\<open>find({}).sort({ created_at: -1 }).limit(1).toArray()\<close>, then \<^verbatim>\<open>post[0] || null\<close>.
  The descending order is the reverse of the ascending one.
\<close>

definition get_broadcast_latest :: "db \<Rightarrow> response \<times> db" where
  "get_broadcast_latest d =
     (let post = take 1 (rev (sort_key b_created_at (broadcasts d)))
      in (Response 200 (Latest (case post of [] \<Rightarrow> None | p # _ \<Rightarrow> Some p)),
          logged Broadcasts Find d))"

subsection \<open>Values used in the statements\<close>

text \<open>An empty database.\<close>

definition db0 :: db where
  "db0 = \<lparr>contacts = [], broadcasts = [], vip_photos = [], next_oid = 0, calls = []\<rparr>"

text \<open>
  The validation checks of the registration handler, as one predicate: a required field
  is missing, the phone number is rejected by the length rule, or it is on the deny-list.
  \<open>newContact_of\<close> is the document the handler builds once the checks have passed.
\<close>

definition validation_failure :: "string option \<Rightarrow> string option \<Rightarrow> bool" where
  "validation_failure name_field phone_field =
     (falsy name_field \<or> falsy phone_field \<or>
      (case clean_phone (str phone_field) of
         Inl InvalidPhone \<Rightarrow> True
       | Inr cleanedPhone \<Rightarrow> cleanedPhone \<in> set blockedNumbers))"

definition newContact_of :: "nat \<Rightarrow> string option \<Rightarrow> string option \<Rightarrow> contact" where
  "newContact_of now name_field phone_field =
     \<lparr>oid = None, name = str name_field, phone_number = replace_non_digits (str phone_field),
      link = SUPPORT_LINK, created_at = now\<rparr>"

text \<open>A database holding one registered contact.\<close>

definition db1 :: db where
  "db1 = \<lparr>contacts = [\<lparr>oid = Some 0, name = ''Amy'', phone_number = ''254712000111'',
                        link = SUPPORT_LINK, created_at = 5\<rparr>],
          broadcasts = [], vip_photos = [], next_oid = 1, calls = [(Contacts, InsertOne)]\<rparr>"

text \<open>
  The vCard record as the specification prints it, line by line: the reference against
  which the exporter's accumulation loop is compared.
\<close>

definition vcard_block :: "string \<Rightarrow> contact \<Rightarrow> string" where
  "vcard_block suffix c =
     ''BEGIN:VCARD'' @ nl @
     ''VERSION:3.0'' @ nl @
     ''FN:'' @ name c @ suffix @ nl @
     ''N:'' @ name c @ suffix @ '';;;;'' @ nl @
     ''TEL;TYPE=CELL:'' @ phone_number c @ nl @
     ''END:VCARD'' @ nl @
     nl"

text \<open>A second contact, whose name holds a character that vCard would escape.\<close>

definition bob :: contact where
  "bob = \<lparr>oid = Some 1, name = ''Bob;x'', phone_number = ''254700000001'',
          link = SUPPORT_LINK, created_at = 9\<rparr>"

text \<open>A broadcast log whose newest entry is neither first nor last in the collection.\<close>

definition db2 :: db where
  "db2 = \<lparr>contacts = [],
          broadcasts = [\<lparr>b_oid = Some 0, message = ''first'', b_created_at = 3\<rparr>,
                        \<lparr>b_oid = Some 1, message = ''second'', b_created_at = 8\<rparr>,
                        \<lparr>b_oid = Some 2, message = ''clock went back'', b_created_at = 6\<rparr>],
          vip_photos = [], next_oid = 3, calls = []\<rparr>"

text \<open>
  A canonical phone string has digits only; a canonical store holds only such phone
  numbers. Every handler that writes a contact keeps a canonical store canonical
  (lemmas \<open>post_contacts_canonical\<close> to \<open>delete_admin_contacts_canonical\<close> below).
\<close>

definition digits_only :: "string \<Rightarrow> bool" where
  "digits_only s = list_all (\<lambda>c. \<not> non_digit c) s"

definition canonical_store :: "db \<Rightarrow> bool" where
  "canonical_store d = list_all (\<lambda>c. digits_only (phone_number c)) (contacts d)"

text \<open>A file part that passes the photo allow-list: the first four bytes of a PNG.\<close>

definition png_upload :: upload where
  "png_upload = \<lparr>fieldname = ''file'', mimetype = ''image/png'',
                 buffer = [0x89, 0x50, 0x4E, 0x47]\<rparr>"

section \<open>Properties\<close>

subsection \<open>Normalisation\<close>

lemma non_digit_iff: "non_digit c \<longleftrightarrow> c \<notin> set ''0123456789''"
  by (cases c) (simp add: non_digit_def)

lemma replace_non_digits_keeps: "replace_non_digits s = filter (\<lambda>c. \<not> non_digit c) s"
  by (induction s) simp_all

lemma replace_non_digits_filter:
  "replace_non_digits s = filter (\<lambda>c. c \<in> set ''0123456789'') s"
  unfolding replace_non_digits_keeps by (simp only: non_digit_iff not_not)

text \<open>
  Claim C1. Normalisation removes exactly the characters that are not decimal digits and
  keeps the digits in order; the normalised string is accepted if and only if its length
  is between 10 and 15, and rejected with \<open>InvalidPhone\<close> otherwise. The fragment is a
  total function of the string. In the registration handler, for a supplied name and a
  non-empty phone text, the answer is the 400 "Invalid phone number" response exactly
  when the normalised length is outside the range.
\<close>

theorem normalize_and_validate:
  "replace_non_digits raw = filter (\<lambda>c. c \<in> set ''0123456789'') raw \<and>
   clean_phone raw =
     (if 10 \<le> length (replace_non_digits raw) \<and> length (replace_non_digits raw) \<le> 15
      then Inr (replace_non_digits raw) else Inl InvalidPhone) \<and>
   (\<not> falsy name_field \<and> \<not> falsy (Some raw) \<longrightarrow>
      (fst (post_contacts now name_field (Some raw) d) = Response 400 (Error invalid_phone_register))
        = (\<not> (10 \<le> length (replace_non_digits raw) \<and> length (replace_non_digits raw) \<le> 15)))"
proof (intro conjI impI)
  show "replace_non_digits raw = filter (\<lambda>c. c \<in> set ''0123456789'') raw"
    by (rule replace_non_digits_filter)
  show c: "clean_phone raw =
     (if 10 \<le> length (replace_non_digits raw) \<and> length (replace_non_digits raw) \<le> 15
      then Inr (replace_non_digits raw) else Inl InvalidPhone)"
    by (simp add: clean_phone_def Let_def not_less not_le)
  assume t: "\<not> falsy name_field \<and> \<not> falsy (Some raw)"
  show "(fst (post_contacts now name_field (Some raw) d) = Response 400 (Error invalid_phone_register))
        = (\<not> (10 \<le> length (replace_non_digits raw) \<and> length (replace_non_digits raw) \<le> 15))"
    using t
    by (simp add: post_contacts_def c str_def contacts_insertOne_def Let_def
             split: sum.splits phone_error.splits mongo_error.splits)
qed

theorem normalize_and_validate_witness:
  "replace_non_digits ''+254 (712) 000-111'' = ''254712000111'' \<and>
   clean_phone ''+254 (712) 000-111'' = Inr ''254712000111'' \<and>
   clean_phone [] = Inl InvalidPhone \<and>
   \<not> falsy (Some ''Amy'') \<and> \<not> falsy (Some ''+254 (712) 000-111'') \<and>
   fst (post_contacts 5 (Some ''Amy'') (Some ''+254 (712) 000-111'') db0)
     \<noteq> Response 400 (Error invalid_phone_register)"
  using normalize_and_validate [of "''+254 (712) 000-111''" "Some ''Amy''" 5 db0]
    normalize_and_validate [of "[]" "Some ''Amy''" 5 db0]
  by (simp add: falsy_def str_def)

subsection \<open>Registration\<close>

lemma blocked_clean:
  assumes "replace_non_digits raw \<in> set blockedNumbers"
  shows "clean_phone raw = Inr (replace_non_digits raw)" and "raw \<noteq> []"
proof -
  from assms have "length (replace_non_digits raw) = 12"
    by (auto simp: blockedNumbers_def)
  then show "clean_phone raw = Inr (replace_non_digits raw)"
    by (simp add: clean_phone_def)
  from assms show "raw \<noteq> []"
    by (auto simp: blockedNumbers_def)
qed

text \<open>
  Claim C3. A registration whose normalised phone number is one of the two deny-listed
  numbers fails with 403 Forbidden whatever name is supplied, and the database is
  returned untouched (no insert). The required-field check comes first: with the name
  absent or empty the answer is the 400 of the missing field, also for a deny-listed
  number. A deny-listed number has twelve digits, so it passes the length rule.
\<close>

theorem blocked_number_forbidden:
  assumes "replace_non_digits raw \<in> set blockedNumbers"
  shows "(nm \<noteq> [] \<longrightarrow>
            post_contacts now (Some nm) (Some raw) d =
              (Response 403 (Error ''This number is restricted from registering.''), d)) \<and>
         post_contacts now None (Some raw) d =
           (Response 400 (Error ''Name and phone number are required''), d) \<and>
         post_contacts now (Some []) (Some raw) d =
           (Response 400 (Error ''Name and phone number are required''), d)"
  using blocked_clean [OF assms] assms
  by (simp add: post_contacts_def falsy_def str_def)

theorem blocked_number_forbidden_witness:
  "replace_non_digits ''+254 713 380 848'' \<in> set blockedNumbers \<and> ''Amy'' \<noteq> [] \<and>
   post_contacts 9 (Some ''Amy'') (Some ''+254 713 380 848'') db1 =
     (Response 403 (Error ''This number is restricted from registering.''), db1) \<and>
   post_contacts 9 (Some ''Bob'') (Some ''254712345678'') db1 =
     (Response 403 (Error ''This number is restricted from registering.''), db1)"
proof -
  have a: "replace_non_digits ''+254 713 380 848'' \<in> set blockedNumbers"
    by (simp add: blockedNumbers_def non_digit_def)
  have b: "replace_non_digits ''254712345678'' \<in> set blockedNumbers"
    by (simp add: blockedNumbers_def non_digit_def)
  show ?thesis
    using a blocked_number_forbidden [OF a, of "''Amy''" 9 db1]
      blocked_number_forbidden [OF b, of "''Bob''" 9 db1]
    by simp
qed

lemma insertOne_rejects_iff:
  "fst (contacts_insertOne doc d) = Inl DuplicateKey
     \<longleftrightarrow> phone_number doc \<in> phone_number ` set (contacts d)"
  by (simp add: contacts_insertOne_def Let_def)

lemma insertOne_calls:
  "calls (snd (contacts_insertOne doc d)) = calls d @ [(Contacts, InsertOne)]"
  by (simp add: contacts_insertOne_def Let_def logged_def)

lemma post_contacts_invalid:
  assumes "validation_failure n p"
  shows "snd (post_contacts now n p d) = d"
    and "fst (post_contacts now n p d) \<noteq> Response 409 (Error ''Phone number already registered'')"
  using assms
  by (auto simp: post_contacts_def validation_failure_def split: sum.splits phone_error.splits)

lemma post_contacts_valid:
  assumes "\<not> validation_failure n p"
  shows "post_contacts now n p d =
           (case contacts_insertOne (newContact_of now n p) d of
              (Inr stored, d') \<Rightarrow>
                 (Response 201 (Message_contact ''Contact saved successfully'' (Some stored)), d')
            | (Inl DuplicateKey, d') \<Rightarrow>
                 (Response 409 (Error ''Phone number already registered''), d'))"
proof -
  from assms have t: "\<not> falsy n" "\<not> falsy p"
    by (auto simp: validation_failure_def)
  from assms obtain c where c: "clean_phone (str p) = Inr c" "c \<notin> set blockedNumbers"
    by (auto simp: validation_failure_def split: sum.splits phone_error.splits)
  from c(1) have "c = replace_non_digits (str p)"
    by (auto simp: clean_phone_def Let_def split: if_splits)
  with t c show ?thesis
    by (simp add: post_contacts_def newContact_of_def)
qed

text \<open>
  Claim C4. Registration answers 409 DuplicatePhone if and only if the insert is rejected
  by the unique index on \<open>phone_number\<close>, that is, if and only if the normalised number
  is already stored. A request that fails validation (missing field, invalid phone,
  deny-list) returns with the database as it was, trace of driver calls included, and
  never answers 409. A request that passes validation makes exactly one driver call,
  the insert: there is no lookup before it.
\<close>

theorem duplicate_only_from_index:
  "(validation_failure n p \<longrightarrow>
      snd (post_contacts now n p d) = d \<and>
      fst (post_contacts now n p d) \<noteq> Response 409 (Error ''Phone number already registered'')) \<and>
   (\<not> validation_failure n p \<longrightarrow>
      calls (snd (post_contacts now n p d)) = calls d @ [(Contacts, InsertOne)] \<and>
      ((fst (post_contacts now n p d) = Response 409 (Error ''Phone number already registered''))
         = (fst (contacts_insertOne (newContact_of now n p) d) = Inl DuplicateKey)) \<and>
      ((fst (contacts_insertOne (newContact_of now n p) d) = Inl DuplicateKey)
         = (replace_non_digits (str p) \<in> phone_number ` set (contacts d))))"
proof (intro conjI impI)
  assume v: "validation_failure n p"
  show "snd (post_contacts now n p d) = d"
    by (rule post_contacts_invalid(1) [OF v])
  show "fst (post_contacts now n p d) \<noteq> Response 409 (Error ''Phone number already registered'')"
    by (rule post_contacts_invalid(2) [OF v])
next
  assume v: "\<not> validation_failure n p"
  show "calls (snd (post_contacts now n p d)) = calls d @ [(Contacts, InsertOne)]"
  proof (cases "contacts_insertOne (newContact_of now n p) d")
    case (Pair r d')
    with insertOne_calls [of "newContact_of now n p" d] show ?thesis
      by (simp add: post_contacts_valid [OF v] split: sum.splits mongo_error.splits)
  qed
  show "(fst (post_contacts now n p d) = Response 409 (Error ''Phone number already registered''))
         = (fst (contacts_insertOne (newContact_of now n p) d) = Inl DuplicateKey)"
    by (simp add: post_contacts_valid [OF v] split: prod.splits sum.splits mongo_error.splits)
  show "(fst (contacts_insertOne (newContact_of now n p) d) = Inl DuplicateKey)
         = (replace_non_digits (str p) \<in> phone_number ` set (contacts d))"
    by (simp add: insertOne_rejects_iff newContact_of_def)
qed

theorem duplicate_only_from_index_witness:
  "\<not> validation_failure (Some ''Amy'') (Some ''+254 (712) 000-111'') \<and>
   validation_failure None (Some ''+254 (712) 000-111'') \<and>
   post_contacts 9 (Some ''Amy'') (Some ''+254 (712) 000-111'') db1 =
     (Response 409 (Error ''Phone number already registered''),
      db1\<lparr>calls := [(Contacts, InsertOne), (Contacts, InsertOne)]\<rparr>) \<and>
   snd (post_contacts 9 None (Some ''+254 (712) 000-111'') db1) = db1"
proof -
  have a: "\<not> validation_failure (Some ''Amy'') (Some ''+254 (712) 000-111'')"
    by (simp add: validation_failure_def falsy_def str_def clean_phone_def non_digit_def
          blockedNumbers_def)
  have b: "validation_failure None (Some ''+254 (712) 000-111'')"
    by (simp add: validation_failure_def falsy_def str_def)
  have c: "post_contacts 9 (Some ''Amy'') (Some ''+254 (712) 000-111'') db1 =
     (Response 409 (Error ''Phone number already registered''),
      db1\<lparr>calls := [(Contacts, InsertOne), (Contacts, InsertOne)]\<rparr>)"
    by (simp add: post_contacts_def falsy_def str_def clean_phone_def non_digit_def
          blockedNumbers_def contacts_insertOne_def db1_def logged_def)
  show ?thesis
    using a b c
      duplicate_only_from_index [of "Some ''Amy''" "Some ''+254 (712) 000-111''" 9 db1]
      duplicate_only_from_index [of None "Some ''+254 (712) 000-111''" 9 db1]
    by simp
qed

subsection \<open>The admin guard\<close>

text \<open>
  Claim C6. When the \<^verbatim>\<open>x-admin-key\<close> header is absent, empty, or different from the
  configured secret, the guard answers 401 Unauthorized whatever handler it guards, and
  every admin route returns the database as it was: no driver call is made.
\<close>

theorem admin_guard_rejects:
  assumes "key = None \<or> key = Some [] \<or> key \<noteq> Some ADMIN_KEY"
  shows "adminAuth ADMIN_KEY key next_handler d = (Response 401 (Error ''Unauthorized''), d) \<and>
         admin_route ADMIN_KEY mk now key req d = (Response 401 (Error ''Unauthorized''), d)"
  using assms
  by (cases key) (auto simp: admin_route_def adminAuth_def falsy_def str_def)

theorem admin_guard_rejects_witness:
  "Some ''guess'' \<noteq> Some ''s3cret'' \<and>
   admin_route ''s3cret'' ObjectId 9 (Some ''guess'') (Delete_contact ''000000000000000000000000'') db1 =
     (Response 401 (Error ''Unauthorized''), db1) \<and>
   admin_route ''s3cret'' ObjectId 9 None (Post_broadcast (Some ''hello'')) db1 =
     (Response 401 (Error ''Unauthorized''), db1) \<and>
   admin_route ''s3cret'' ObjectId 9 (Some []) Get_contacts db1 =
     (Response 401 (Error ''Unauthorized''), db1)"
  using admin_guard_rejects [of "Some ''guess''" "''s3cret''" "admin_handler ObjectId 9 (Delete_contact ''000000000000000000000000'')" db1 ObjectId 9 "Delete_contact ''000000000000000000000000''"]
    admin_guard_rejects [of None "''s3cret''" "admin_handler ObjectId 9 (Post_broadcast (Some ''hello''))" db1 ObjectId 9 "Post_broadcast (Some ''hello'')"]
    admin_guard_rejects [of "Some []" "''s3cret''" "admin_handler ObjectId 9 Get_contacts" db1 ObjectId 9 "Get_contacts"]
  by simp

subsection \<open>Export\<close>

lemma append_vcard_block: "append_vcard suffix acc c = acc @ vcard_block suffix c"
  by (simp add: append_vcard_def vcard_block_def Let_def)

lemma foldl_append_vcard:
  "foldl (append_vcard suffix) acc cs = acc @ concat (map (vcard_block suffix) cs)"
  by (induction cs arbitrary: acc) (simp_all add: append_vcard_block)

lemma post_contacts_created:
  assumes "fst (post_contacts now n p d) = Response 201 b"
  shows "\<exists>c. contacts (snd (post_contacts now n p d)) = contacts d @ [c] \<and>
             b = Message_contact ''Contact saved successfully'' (Some c)"
proof (cases "validation_failure n p")
  case True
  with assms show ?thesis
    by (auto simp: post_contacts_def validation_failure_def
             split: if_splits sum.splits phone_error.splits)
next
  case False
  from assms show ?thesis
    unfolding post_contacts_valid [OF False]
    by (auto simp: contacts_insertOne_def Let_def logged_def split: if_splits)
qed

text \<open>
  Claim C2. Export answers 404 NoContacts on an empty contact set. On a non-empty set
  the payload is the concatenation, over the contacts in the order the collection holds
  them, of one block per contact, each block being exactly the lines \<^verbatim>\<open>BEGIN:VCARD\<close>,
  \<^verbatim>\<open>VERSION:3.0\<close>, \<^verbatim>\<open>FN:<name><suffix>\<close>, \<^verbatim>\<open>N:<name><suffix>;;;;\<close>,
  \<^verbatim>\<open>TEL;TYPE=CELL:<phone_number>\<close>, \<^verbatim>\<open>END:VCARD\<close> and an empty line, with the name
  copied as it is stored (no escaping). The collection's order is the creation order:
  a successful registration puts the new contact at the end.
\<close>

theorem export_vcards:
  "(contacts d = [] \<longrightarrow>
      fst (get_contacts_download suffix d) = Response 404 (Error ''No contacts available'')) \<and>
   (contacts d \<noteq> [] \<longrightarrow>
      fst (get_contacts_download suffix d) =
        Response 200 (Vcf (concat (map (vcard_block suffix) (contacts d))))) \<and>
   (fst (post_contacts now n p d) = Response 201 b \<longrightarrow>
      (\<exists>c. contacts (snd (post_contacts now n p d)) = contacts d @ [c]))"
proof (intro conjI impI)
  assume "contacts d = []"
  then show "fst (get_contacts_download suffix d) = Response 404 (Error ''No contacts available'')"
    by (simp add: get_contacts_download_def contacts_find_all_def)
next
  assume "contacts d \<noteq> []"
  then show "fst (get_contacts_download suffix d) =
        Response 200 (Vcf (concat (map (vcard_block suffix) (contacts d))))"
    by (simp add: get_contacts_download_def contacts_find_all_def foldl_append_vcard)
next
  assume "fst (post_contacts now n p d) = Response 201 b"
  from post_contacts_created [OF this]
  show "\<exists>c. contacts (snd (post_contacts now n p d)) = contacts d @ [c]"
    by blast
qed

theorem export_vcards_witness:
  "contacts db0 = [] \<and>
   fst (get_contacts_download suffix_vip_variant db0) = Response 404 (Error ''No contacts available'') \<and>
   contacts db1 \<noteq> [] \<and>
   fst (get_contacts_download suffix_vip_variant db1) =
     Response 200 (Vcf (''BEGIN:VCARD'' @ nl @ ''VERSION:3.0'' @ nl @
        ''FN:Amy'' @ suffix_vip_variant @ nl @ ''N:Amy'' @ suffix_vip_variant @ '';;;;'' @ nl @
        ''TEL;TYPE=CELL:254712000111'' @ nl @ ''END:VCARD'' @ nl @ nl)) \<and>
   fst (post_contacts 9 (Some ''Bob;x'') (Some ''254700000001'') db1) =
     Response 201 (Message_contact ''Contact saved successfully'' (Some bob)) \<and>
   contacts (snd (post_contacts 9 (Some ''Bob;x'') (Some ''254700000001'') db1)) = contacts db1 @ [bob]"
proof -
  have a: "contacts db0 = []" by (simp add: db0_def)
  have b: "contacts db1 \<noteq> []" by (simp add: db1_def)
  have c: "post_contacts 9 (Some ''Bob;x'') (Some ''254700000001'') db1 =
     (Response 201 (Message_contact ''Contact saved successfully'' (Some bob)),
      db1\<lparr>contacts := contacts db1 @ [bob], next_oid := 2,
          calls := [(Contacts, InsertOne), (Contacts, InsertOne)]\<rparr>)"
    by (simp add: post_contacts_def falsy_def str_def clean_phone_def non_digit_def
          blockedNumbers_def contacts_insertOne_def db1_def logged_def bob_def Let_def)
  show ?thesis
    using a b c export_vcards [of db0 suffix_vip_variant 9 "Some ''Bob;x''" "Some ''254700000001''" "Message_contact ''Contact saved successfully'' (Some bob)"]
      export_vcards [of db1 suffix_vip_variant 9 "Some ''Bob;x''" "Some ''254700000001''" "Message_contact ''Contact saved successfully'' (Some bob)"]
    by (simp add: vcard_block_def db1_def)
qed

subsection \<open>Latest broadcast\<close>

lemma sorted_last_max:
  assumes "sorted (map f xs)" and "x \<in> set xs"
  shows "f x \<le> f (last xs)"
  using assms
proof (induction xs)
  case Nil
  then show ?case by simp
next
  case (Cons a xs)
  then show ?case by (cases xs) auto
qed

lemma latest_pick:
  assumes "bs \<noteq> []"
  shows "take 1 (rev (sort_key f bs)) = [last (sort_key f bs)]"
proof -
  from assms have "sort_key f bs \<noteq> []"
    by (metis length_0_conv length_sort)
  then show ?thesis
    by (cases "sort_key f bs" rule: rev_cases) simp_all
qed

text \<open>
  Claim C8. Latest never answers with an error: on an empty log it answers 200 with an
  explicit null, and on a non-empty log it answers 200 with a stored message whose
  \<open>created_at\<close> is greatest among all stored messages.
\<close>

theorem latest_broadcast:
  "(broadcasts d = [] \<longrightarrow> fst (get_broadcast_latest d) = Response 200 (Latest None)) \<and>
   (broadcasts d \<noteq> [] \<longrightarrow>
      (\<exists>p \<in> set (broadcasts d).
          fst (get_broadcast_latest d) = Response 200 (Latest (Some p)) \<and>
          (\<forall>q \<in> set (broadcasts d). b_created_at q \<le> b_created_at p)))"
proof (intro conjI impI)
  assume "broadcasts d = []"
  then show "fst (get_broadcast_latest d) = Response 200 (Latest None)"
    by (simp add: get_broadcast_latest_def)
next
  assume ne: "broadcasts d \<noteq> []"
  let ?s = "sort_key b_created_at (broadcasts d)"
  have s_ne: "?s \<noteq> []"
    using ne by (metis length_0_conv length_sort)
  have mem: "last ?s \<in> set (broadcasts d)"
    using last_in_set [OF s_ne] by simp
  have resp: "fst (get_broadcast_latest d) = Response 200 (Latest (Some (last ?s)))"
    unfolding get_broadcast_latest_def Let_def latest_pick [OF ne] by simp
  have mx: "\<forall>q \<in> set (broadcasts d). b_created_at q \<le> b_created_at (last ?s)"
  proof
    fix q assume "q \<in> set (broadcasts d)"
    then have "q \<in> set ?s" by simp
    then show "b_created_at q \<le> b_created_at (last ?s)"
      by (rule sorted_last_max [OF sorted_sort_key])
  qed
  from mem resp mx
  show "\<exists>p \<in> set (broadcasts d).
          fst (get_broadcast_latest d) = Response 200 (Latest (Some p)) \<and>
          (\<forall>q \<in> set (broadcasts d). b_created_at q \<le> b_created_at p)"
    by blast
qed

theorem latest_broadcast_witness:
  "broadcasts db0 = [] \<and> fst (get_broadcast_latest db0) = Response 200 (Latest None) \<and>
   broadcasts db2 \<noteq> [] \<and>
   fst (get_broadcast_latest db2) =
     Response 200 (Latest (Some \<lparr>b_oid = Some 1, message = ''second'', b_created_at = 8\<rparr>))"
proof -
  have a: "broadcasts db0 = []" by (simp add: db0_def)
  have b: "broadcasts db2 \<noteq> []" by (simp add: db2_def)
  have c: "fst (get_broadcast_latest db2) =
     Response 200 (Latest (Some \<lparr>b_oid = Some 1, message = ''second'', b_created_at = 8\<rparr>))"
    by (simp add: get_broadcast_latest_def db2_def)
  show ?thesis
    using a b c latest_broadcast [of db0] latest_broadcast [of db2]
    by simp
qed

subsection \<open>Self update\<close>

lemma map_update_first:
  assumes "\<And>x. g (f x) = g x"
  shows "map g (update_first P f xs) = map g xs"
  by (induction xs) (simp_all add: assms)

lemma updateOne_contacts:
  "contacts (snd (contacts_updateOne f u d)) = contacts d \<or>
   contacts (snd (contacts_updateOne f u d)) = update_first (matches f) (apply_set u) (contacts d)"
  by (simp add: contacts_updateOne_def Let_def logged_def split: option.splits)

lemma put_contacts_contacts:
  assumes "build_update new_name new_phone = Inr u"
  shows "contacts (snd (put_contacts old new_name new_phone d)) = contacts d \<or>
         contacts (snd (put_contacts old new_name new_phone d)) =
           update_first (matches (By_phone (str old))) (apply_set u) (contacts d)"
proof (cases "contacts_updateOne (By_phone (str old)) u d")
  case (Pair r d1)
  with updateOne_contacts [of "By_phone (str old)" u d]
  have d1: "contacts d1 = contacts d \<or>
            contacts d1 = update_first (matches (By_phone (str old))) (apply_set u) (contacts d)"
    by simp
  show ?thesis
    using assms Pair d1
    by (auto simp: put_contacts_def contacts_findOne_def logged_def
             split: sum.splits mongo_error.splits)
qed

lemma build_update_name_only:
  assumes "falsy new_phone" and "build_update new_name new_phone = Inr u"
  shows "set_phone_number u = None"
  using assms by (auto simp: build_update_def Let_def split: if_splits)

lemma build_update_phone_only:
  assumes "falsy new_name" and "\<not> falsy new_phone"
  shows "build_update new_name new_phone =
           (case clean_phone (str new_phone) of
              Inl e \<Rightarrow> Inl e
            | Inr c \<Rightarrow> Inr \<lparr>set_name = None, set_phone_number = Some c\<rparr>)"
  using assms by (simp add: build_update_def Let_def split: sum.splits)

lemma build_update_total_name_only:
  assumes "falsy new_phone"
  shows "\<exists>u. build_update new_name new_phone = Inr u"
  using assms by (simp add: build_update_def Let_def)

text \<open>
  Claim C7. Self update applies only the provided fields. Called with the old phone
  number and only a new name, it leaves the phone number, the link and the creation
  time of every contact, the matched one included, as they were. Called with only a new
  phone number, the new value is normalised and checked by the 10 to 15 digit rule: a
  rejected value is answered 400 with the database untouched (trace included), and an
  accepted one is the only phone value a write can store, on the first contact whose
  phone number equals the old one.
\<close>

theorem self_update_frame:
  "(\<not> falsy old \<and> \<not> falsy new_name \<and> falsy new_phone \<longrightarrow>
      map phone_number (contacts (snd (put_contacts old new_name new_phone d)))
        = map phone_number (contacts d) \<and>
      map link (contacts (snd (put_contacts old new_name new_phone d))) = map link (contacts d) \<and>
      map created_at (contacts (snd (put_contacts old new_name new_phone d)))
        = map created_at (contacts d)) \<and>
   (\<not> falsy old \<and> falsy new_name \<and> \<not> falsy new_phone \<longrightarrow>
      (clean_phone (str new_phone) = Inl InvalidPhone \<longrightarrow>
         put_contacts old new_name new_phone d = (Response 400 (Error ''Invalid phone number''), d)) \<and>
      (\<forall>c. clean_phone (str new_phone) = Inr c \<longrightarrow>
         c = replace_non_digits (str new_phone) \<and>
         (contacts (snd (put_contacts old new_name new_phone d)) = contacts d \<or>
          contacts (snd (put_contacts old new_name new_phone d)) =
            update_first (matches (By_phone (str old))) (\<lambda>x. x\<lparr>phone_number := c\<rparr>) (contacts d))))"
proof (intro conjI impI allI)
  assume h: "\<not> falsy old \<and> \<not> falsy new_name \<and> falsy new_phone"
  then obtain u where u: "build_update new_name new_phone = Inr u"
    using build_update_total_name_only by blast
  with h have none: "set_phone_number u = None"
    using build_update_name_only by blast
  let ?cs = "contacts (snd (put_contacts old new_name new_phone d))"
  have frame: "phone_number (apply_set u x) = phone_number x"
              "link (apply_set u x) = link x" "created_at (apply_set u x) = created_at x" for x
    using none by (simp_all add: apply_set_def)
  from put_contacts_contacts [OF u, of old d]
  show "map phone_number ?cs = map phone_number (contacts d)"
    by (auto simp: map_update_first frame)
  from put_contacts_contacts [OF u, of old d]
  show "map link ?cs = map link (contacts d)"
    by (auto simp: map_update_first frame)
  from put_contacts_contacts [OF u, of old d]
  show "map created_at ?cs = map created_at (contacts d)"
    by (auto simp: map_update_first frame)
next
  assume h: "\<not> falsy old \<and> falsy new_name \<and> \<not> falsy new_phone"
  assume "clean_phone (str new_phone) = Inl InvalidPhone"
  with h show "put_contacts old new_name new_phone d = (Response 400 (Error ''Invalid phone number''), d)"
    by (simp add: put_contacts_def build_update_phone_only)
next
  fix c
  assume h: "\<not> falsy old \<and> falsy new_name \<and> \<not> falsy new_phone"
  assume c: "clean_phone (str new_phone) = Inr c"
  then show "c = replace_non_digits (str new_phone)"
    by (auto simp: clean_phone_def Let_def split: if_splits)
  from h c have u: "build_update new_name new_phone = Inr \<lparr>set_name = None, set_phone_number = Some c\<rparr>"
    by (simp add: build_update_phone_only)
  have "apply_set \<lparr>set_name = None, set_phone_number = Some c\<rparr> = (\<lambda>x. x\<lparr>phone_number := c\<rparr>)"
    by (rule ext) (simp add: apply_set_def)
  with put_contacts_contacts [OF u, of old d]
  show "contacts (snd (put_contacts old new_name new_phone d)) = contacts d \<or>
        contacts (snd (put_contacts old new_name new_phone d)) =
          update_first (matches (By_phone (str old))) (\<lambda>x. x\<lparr>phone_number := c\<rparr>) (contacts d)"
    by simp
qed

theorem self_update_frame_witness:
  "\<not> falsy (Some ''254712000111'') \<and> \<not> falsy (Some ''Amelia'') \<and> falsy None \<and>
   put_contacts (Some ''254712000111'') (Some ''Amelia'') None db1 =
     (Response 200 (Message_contact ''Contact updated successfully''
        (Some \<lparr>oid = Some 0, name = ''Amelia'', phone_number = ''254712000111'',
               link = SUPPORT_LINK, created_at = 5\<rparr>)),
      db1\<lparr>contacts := [\<lparr>oid = Some 0, name = ''Amelia'', phone_number = ''254712000111'',
                          link = SUPPORT_LINK, created_at = 5\<rparr>],
          calls := [(Contacts, InsertOne), (Contacts, UpdateOne), (Contacts, FindOne)]\<rparr>) \<and>
   map phone_number (contacts (snd (put_contacts (Some ''254712000111'') (Some ''Amelia'') None db1)))
     = [''254712000111''] \<and>
   clean_phone ''12-34'' = Inl InvalidPhone \<and>
   put_contacts (Some ''254712000111'') None (Some ''12-34'') db1 =
     (Response 400 (Error ''Invalid phone number''), db1) \<and>
   clean_phone ''+254 700 000 002'' = Inr ''254700000002'' \<and>
   contacts (snd (put_contacts (Some ''254712000111'') None (Some ''+254 700 000 002'') db1)) =
     [\<lparr>oid = Some 0, name = ''Amy'', phone_number = ''254700000002'',
       link = SUPPORT_LINK, created_at = 5\<rparr>]"
proof -
  have t: "\<not> falsy (Some ''254712000111'')" "\<not> falsy (Some ''Amelia'')" "falsy None"
          "\<not> falsy (Some ''12-34'')" "\<not> falsy (Some ''+254 700 000 002'')"
    by (simp_all add: falsy_def str_def)
  have a: "put_contacts (Some ''254712000111'') (Some ''Amelia'') None db1 =
     (Response 200 (Message_contact ''Contact updated successfully''
        (Some \<lparr>oid = Some 0, name = ''Amelia'', phone_number = ''254712000111'',
               link = SUPPORT_LINK, created_at = 5\<rparr>)),
      db1\<lparr>contacts := [\<lparr>oid = Some 0, name = ''Amelia'', phone_number = ''254712000111'',
                          link = SUPPORT_LINK, created_at = 5\<rparr>],
          calls := [(Contacts, InsertOne), (Contacts, UpdateOne), (Contacts, FindOne)]\<rparr>)"
    by (simp add: put_contacts_def build_update_def falsy_def str_def contacts_updateOne_def
          contacts_findOne_def apply_set_def logged_def db1_def Let_def)
  have b: "clean_phone ''12-34'' = Inl InvalidPhone"
    by (simp add: clean_phone_def non_digit_def)
  have c: "clean_phone ''+254 700 000 002'' = Inr ''254700000002''"
    by (simp add: clean_phone_def non_digit_def)
  have e: "update_first (matches (By_phone ''254712000111'')) (\<lambda>x. x\<lparr>phone_number := ''254700000002''\<rparr>)
             (contacts db1) =
           [\<lparr>oid = Some 0, name = ''Amy'', phone_number = ''254700000002'',
             link = SUPPORT_LINK, created_at = 5\<rparr>]"
    by (simp add: db1_def)
  have f: "contacts (snd (put_contacts (Some ''254712000111'') None (Some ''+254 700 000 002'') db1))
             \<noteq> contacts db1"
    by (simp add: put_contacts_def build_update_def falsy_def str_def contacts_updateOne_def
          contacts_findOne_def apply_set_def logged_def db1_def Let_def c)
  have g: "map phone_number (contacts db1) = [''254712000111'']"
    by (simp add: db1_def)
  show ?thesis
    using t a b c e f g
      self_update_frame [of "Some ''254712000111''" "Some ''Amelia''" None db1]
      self_update_frame [of "Some ''254712000111''" None "Some ''12-34''" db1]
      self_update_frame [of "Some ''254712000111''" None "Some ''+254 700 000 002''" db1]
    by (simp add: str_def)
qed

subsection \<open>Malformed identifiers on the admin routes\<close>

lemma not_an_id: "ObjectId ''not-an-object-id'' = None"
  by (simp add: ObjectId_def)

text \<open>
  Claim C9, as stated: in AdminUpdate and AdminDelete a malformed \<^verbatim>\<open>:id\<close> makes the
  constructor throw, so the answer is the generic 500. AdminUpdate checks the body before
  it builds the identifier: with a malformed id and an empty body the answer is the 400
  "Nothing to update", not the 500.
\<close>

theorem malformed_id_counterexample:
  "ObjectId ''not-an-object-id'' = None \<and>
   put_admin_contacts ObjectId ''not-an-object-id'' None None db1 =
     (Response 400 (Error ''Nothing to update''), db1) \<and>
   fst (put_admin_contacts ObjectId ''not-an-object-id'' None None db1)
     \<noteq> Response 500 (Error ''Failed to update contact'')"
  by (simp add: put_admin_contacts_def falsy_def str_def ObjectId_def)

text \<open>
  Claim C9, amended. When the \<^verbatim>\<open>ObjectId\<close> constructor throws on the \<^verbatim>\<open>:id\<close>
  parameter, AdminDelete answers the generic 500 and makes no driver call; AdminUpdate
  does the same whenever the body passes its checks (a name or a phone number is given,
  and a given phone number normalises to 10 to 15 digits). An AdminUpdate body that
  fails those checks is answered 400 before the identifier is built. In no case is the
  answer 404, and in no case is the store reached.
\<close>

theorem malformed_id_generic_error:
  assumes "mk i = None"
  shows "delete_admin_contacts mk i d = (Response 500 (Error ''Failed to delete contact''), d) \<and>
         (\<not> (falsy n \<and> falsy p) \<and> build_update n p \<noteq> Inl InvalidPhone \<longrightarrow>
            put_admin_contacts mk i n p d = (Response 500 (Error ''Failed to update contact''), d)) \<and>
         (falsy n \<and> falsy p \<longrightarrow>
            put_admin_contacts mk i n p d = (Response 400 (Error ''Nothing to update''), d)) \<and>
         (\<not> (falsy n \<and> falsy p) \<and> build_update n p = Inl InvalidPhone \<longrightarrow>
            put_admin_contacts mk i n p d = (Response 400 (Error ''Invalid phone number''), d))"
  using assms
  by (auto simp: delete_admin_contacts_def put_admin_contacts_def
           split: sum.splits phone_error.splits)

theorem malformed_id_generic_error_witness:
  "ObjectId ''not-an-object-id'' = None \<and>
   delete_admin_contacts ObjectId ''not-an-object-id'' db1 =
     (Response 500 (Error ''Failed to delete contact''), db1) \<and>
   \<not> (falsy (Some ''Amelia'') \<and> falsy None) \<and> build_update (Some ''Amelia'') None \<noteq> Inl InvalidPhone \<and>
   put_admin_contacts ObjectId ''not-an-object-id'' (Some ''Amelia'') None db1 =
     (Response 500 (Error ''Failed to update contact''), db1) \<and>
   build_update None (Some ''12-34'') = Inl InvalidPhone \<and>
   put_admin_contacts ObjectId ''not-an-object-id'' None (Some ''12-34'') db1 =
     (Response 400 (Error ''Invalid phone number''), db1)"
proof -
  have a: "\<not> (falsy (Some ''Amelia'') \<and> falsy None)" "\<not> (falsy None \<and> falsy (Some ''12-34''))"
    by (simp_all add: falsy_def str_def)
  have b: "build_update (Some ''Amelia'') None \<noteq> Inl InvalidPhone"
    by (simp add: build_update_def falsy_def str_def Let_def)
  have c: "build_update None (Some ''12-34'') = Inl InvalidPhone"
    by (simp add: build_update_def falsy_def str_def Let_def clean_phone_def non_digit_def)
  show ?thesis
    using not_an_id a b c
      malformed_id_generic_error [where mk = ObjectId and i = "''not-an-object-id''" and d = db1
        and n = "Some ''Amelia''" and p = None]
      malformed_id_generic_error [where mk = ObjectId and i = "''not-an-object-id''" and d = db1
        and n = None and p = "Some ''12-34''"]
    by simp
qed

subsection \<open>Canonical phone numbers in the store\<close>

lemma digits_only_replace: "digits_only (replace_non_digits s)"
  by (simp add: digits_only_def replace_non_digits_keeps list_all_iff)

lemma clean_phone_digits:
  assumes "clean_phone s = Inr c"
  shows "digits_only c"
  using assms digits_only_replace [of s]
  by (auto simp: clean_phone_def Let_def split: if_splits)

lemma build_update_digits:
  assumes "build_update n p = Inr u" and "set_phone_number u = Some c"
  shows "digits_only c"
  using assms clean_phone_digits [of "str p"]
  by (auto simp: build_update_def Let_def split: if_splits sum.splits)

lemma list_all_update_first:
  assumes "list_all Q xs" and "\<And>x. Q x \<Longrightarrow> Q (f x)"
  shows "list_all Q (update_first P f xs)"
  using assms by (induction xs) auto

lemma list_all_delete_first:
  assumes "list_all Q xs"
  shows "list_all Q (delete_first P xs)"
  using assms by (induction xs) auto

lemma apply_set_digits:
  assumes "build_update n p = Inr u" and "digits_only (phone_number x)"
  shows "digits_only (phone_number (apply_set u x))"
  using assms build_update_digits [OF assms(1)]
  by (cases "set_phone_number u") (simp_all add: apply_set_def)

lemma updateOne_canonical:
  assumes "canonical_store d" and "build_update n p = Inr u"
  shows "canonical_store (snd (contacts_updateOne f u d))"
proof -
  have "list_all (\<lambda>c. digits_only (phone_number c))
          (update_first (matches f) (apply_set u) (contacts d))"
    using assms(1) unfolding canonical_store_def
    by (rule list_all_update_first) (rule apply_set_digits [OF assms(2)])
  with assms(1) updateOne_contacts [of f u d] show ?thesis
    by (auto simp: canonical_store_def)
qed

lemma canonical_logged: "canonical_store (logged c k d) = canonical_store d"
  by (simp add: canonical_store_def logged_def)

lemma canonical_db0: "canonical_store db0"
  by (simp add: canonical_store_def db0_def)

lemma post_contacts_canonical:
  assumes "canonical_store d"
  shows "canonical_store (snd (post_contacts now n p d))"
proof (cases "validation_failure n p")
  case True
  with assms show ?thesis by (simp add: post_contacts_invalid(1))
next
  case False
  have "digits_only (phone_number (newContact_of now n p))"
    by (simp add: newContact_of_def digits_only_replace)
  with assms show ?thesis
    unfolding post_contacts_valid [OF False]
    by (auto simp: contacts_insertOne_def Let_def logged_def canonical_store_def
             split: mongo_error.splits)
qed

lemma put_contacts_canonical:
  assumes "canonical_store d"
  shows "canonical_store (snd (put_contacts old n p d))"
proof (cases "build_update n p")
  case (Inl e)
  with assms show ?thesis
    by (simp add: put_contacts_def split: phone_error.splits)
next
  case (Inr u)
  show ?thesis
  proof (cases "contacts_updateOne (By_phone (str old)) u d")
    case (Pair r d1)
    with updateOne_canonical [OF assms Inr, of "By_phone (str old)"]
    have "canonical_store d1" by simp
    with assms Inr Pair show ?thesis
      by (auto simp: put_contacts_def contacts_findOne_def canonical_logged
               split: sum.splits mongo_error.splits)
  qed
qed

lemma put_admin_contacts_canonical:
  assumes "canonical_store d"
  shows "canonical_store (snd (put_admin_contacts mk i n p d))"
proof (cases "build_update n p")
  case (Inl e)
  with assms show ?thesis
    by (simp add: put_admin_contacts_def split: phone_error.splits)
next
  case (Inr u)
  show ?thesis
  proof (cases "mk i")
    case None
    with assms Inr show ?thesis by (simp add: put_admin_contacts_def)
  next
    case (Some j)
    show ?thesis
    proof (cases "contacts_updateOne (By_id j) u d")
      case (Pair r d1)
      with updateOne_canonical [OF assms Inr, of "By_id j"]
      have "canonical_store d1" by simp
      with assms Inr Some Pair show ?thesis
        by (auto simp: put_admin_contacts_def contacts_findOne_def canonical_logged
                 split: sum.splits mongo_error.splits)
    qed
  qed
qed

lemma delete_admin_contacts_canonical:
  assumes "canonical_store d"
  shows "canonical_store (snd (delete_admin_contacts mk i d))"
  using assms list_all_delete_first [of "\<lambda>c. digits_only (phone_number c)" "contacts d"]
  by (auto simp: delete_admin_contacts_def contacts_deleteOne_def Let_def logged_def
        canonical_store_def split: option.splits)

lemma no_match_for_non_canonical:
  assumes "canonical_store d" and "\<not> digits_only old"
  shows "List.find (matches (By_phone old)) (contacts d) = None"
  using assms by (auto simp: find_None_iff canonical_store_def list_all_iff)

text \<open>
  Claim C10, as stated: an old phone number that holds a non-digit character matches no
  contact and the operation fails NotFound. The handler checks the request before it
  queries: with such an old number and no new field the answer is the 400 of the
  missing data, not 404.
\<close>

theorem non_digit_old_phone_counterexample:
  "canonical_store db1 \<and> \<not> digits_only ''+254712000111'' \<and>
   put_contacts (Some ''+254712000111'') None None db1 =
     (Response 400 (Error
        ''Required data missing contact dev Nutterx +254713881613 to update for you.''), db1) \<and>
   fst (put_contacts (Some ''+254712000111'') None None db1)
     \<noteq> Response 404 (Error ''Contact not found'')"
  by (simp add: canonical_store_def digits_only_def db1_def non_digit_def put_contacts_def
        falsy_def str_def)

lemma old_phone_supplied:
  assumes "\<not> digits_only old"
  shows "\<not> falsy (Some old)"
  using assms by (auto simp: falsy_def str_def digits_only_def)

text \<open>
  Claim C10, amended. Self update queries with the old phone number exactly as supplied.
  On a canonical store, an old phone number that holds a non-digit character matches no
  contact: whenever the request passes the handler's checks (a new name or a new phone
  number is given, and a given new phone number normalises to 10 to 15 digits) the
  answer is 404 NotFound, and the database is as before except that the trace records
  the one \<^verbatim>\<open>updateOne\<close> call. A request that fails those checks is answered 400
  before the store is queried: with neither new field given the answer is the 400 of
  the missing data, with a new phone number that the length rule rejects it is the 400
  "Invalid phone number", and in both cases the database is returned as it was, trace
  included.
\<close>

theorem non_digit_old_phone_not_found:
  assumes "canonical_store d" and "\<not> digits_only old"
  shows "(\<not> (falsy new_name \<and> falsy new_phone) \<and>
          build_update new_name new_phone \<noteq> Inl InvalidPhone \<longrightarrow>
            put_contacts (Some old) new_name new_phone d =
              (Response 404 (Error ''Contact not found''),
               d\<lparr>calls := calls d @ [(Contacts, UpdateOne)]\<rparr>)) \<and>
         (falsy new_name \<and> falsy new_phone \<longrightarrow>
            put_contacts (Some old) new_name new_phone d =
              (Response 400 (Error
                 ''Required data missing contact dev Nutterx +254713881613 to update for you.''), d)) \<and>
         (\<not> (falsy new_name \<and> falsy new_phone) \<and>
          build_update new_name new_phone = Inl InvalidPhone \<longrightarrow>
            put_contacts (Some old) new_name new_phone d =
              (Response 400 (Error ''Invalid phone number''), d))"
proof (intro conjI impI)
  assume pass: "\<not> (falsy new_name \<and> falsy new_phone) \<and>
                build_update new_name new_phone \<noteq> Inl InvalidPhone"
  from assms(2) have ne: "\<not> falsy (Some old)"
    by (rule old_phone_supplied)
  have "\<exists>u. build_update new_name new_phone = Inr u"
  proof (cases "build_update new_name new_phone")
    case (Inl e)
    with pass show ?thesis by (cases e) simp
  next
    case (Inr u)
    then show ?thesis by simp
  qed
  then obtain u where u: "build_update new_name new_phone = Inr u" ..
  have "contacts_updateOne (By_phone old) u d = (Inr 0, logged Contacts UpdateOne d)"
    by (simp add: contacts_updateOne_def no_match_for_non_canonical [OF assms])
  with ne pass u
  show "put_contacts (Some old) new_name new_phone d =
          (Response 404 (Error ''Contact not found''),
           d\<lparr>calls := calls d @ [(Contacts, UpdateOne)]\<rparr>)"
    by (simp add: put_contacts_def str_def logged_def)
next
  assume "falsy new_name \<and> falsy new_phone"
  then show "put_contacts (Some old) new_name new_phone d =
              (Response 400 (Error
                 ''Required data missing contact dev Nutterx +254713881613 to update for you.''), d)"
    by (simp add: put_contacts_def)
next
  assume "\<not> (falsy new_name \<and> falsy new_phone) \<and>
          build_update new_name new_phone = Inl InvalidPhone"
  with old_phone_supplied [OF assms(2)]
  show "put_contacts (Some old) new_name new_phone d =
              (Response 400 (Error ''Invalid phone number''), d)"
    by (auto simp: put_contacts_def)
qed

theorem non_digit_old_phone_not_found_witness:
  "canonical_store db1 \<and> \<not> digits_only ''+254712000111'' \<and>
   \<not> (falsy (Some ''Amelia'') \<and> falsy None) \<and>
   build_update (Some ''Amelia'') None \<noteq> Inl InvalidPhone \<and>
   put_contacts (Some ''+254712000111'') (Some ''Amelia'') None db1 =
     (Response 404 (Error ''Contact not found''),
      db1\<lparr>calls := [(Contacts, InsertOne), (Contacts, UpdateOne)]\<rparr>) \<and>
   (falsy None \<and> falsy (Some [])) \<and>
   put_contacts (Some ''+254712000111'') None (Some []) db1 =
     (Response 400 (Error
        ''Required data missing contact dev Nutterx +254713881613 to update for you.''), db1) \<and>
   \<not> (falsy None \<and> falsy (Some ''12-34'')) \<and>
   build_update None (Some ''12-34'') = Inl InvalidPhone \<and>
   put_contacts (Some ''+254712000111'') None (Some ''12-34'') db1 =
     (Response 400 (Error ''Invalid phone number''), db1)"
proof -
  have a: "canonical_store db1"
    by (simp add: canonical_store_def digits_only_def db1_def non_digit_def)
  have b: "\<not> digits_only ''+254712000111''"
    by (simp add: digits_only_def non_digit_def)
  have c: "\<not> (falsy (Some ''Amelia'') \<and> falsy None)" "falsy None \<and> falsy (Some [])"
          "\<not> (falsy None \<and> falsy (Some ''12-34''))"
    by (simp_all add: falsy_def str_def)
  have e: "build_update (Some ''Amelia'') None \<noteq> Inl InvalidPhone"
    by (simp add: build_update_def falsy_def str_def Let_def)
  have g: "build_update None (Some ''12-34'') = Inl InvalidPhone"
    by (simp add: build_update_def falsy_def str_def Let_def clean_phone_def non_digit_def)
  have f: "calls db1 = [(Contacts, InsertOne)]"
    by (simp add: db1_def)
  show ?thesis
    using a b c e f g
      non_digit_old_phone_not_found [OF a b, of "Some ''Amelia''" None]
      non_digit_old_phone_not_found [OF a b, of None "Some []"]
      non_digit_old_phone_not_found [OF a b, of None "Some ''12-34''"]
    by simp
qed

subsection \<open>VIP media\<close>

lemma resolve_declared:
  "resolve ''contactsCollection'' = Some Contacts"
  "resolve ''broadcastCollection'' = Some Broadcasts"
  "resolve ''vipMediaCollection'' = Some Vip_photos"
  by (simp_all add: resolve_def module_bindings_def)

lemma resolve_vipPhotosCollection: "resolve ''vipPhotosCollection'' = None"
  by (simp add: resolve_def module_bindings_def)

lemma send_media_never_stores:
  "snd (post_vip_send_media now files caption_field type_field d) = d"
  by (simp add: post_vip_send_media_def resolve_vipPhotosCollection Let_def
           split: option.splits property_read.splits)

lemma send_media_never_succeeds:
  "fst (post_vip_send_media now files caption_field type_field d) \<noteq> Response 200 b"
  by (simp add: post_vip_send_media_def resolve_vipPhotosCollection Let_def
           split: option.splits property_read.splits)

lemma send_media_invalid_type:
  assumes "List.find (\<lambda>f. fieldname f = ''file'') files = Some f"
    and "allowedTypes t = Own allowed" and "mimetype f \<notin> set allowed"
  shows "post_vip_send_media now files caption_field (Some t) d =
           (Response 400 (Error (''Invalid '' @ t @ '' file type'')), d)"
  using assms by (simp add: post_vip_send_media_def)

text \<open>
  Claim C5 says that an upload whose MIME type is on the allow-list of its declared type
  is encoded as a base64 data URI, stored as a VipMedia record and answered with
  success. The handler evaluated on such an upload, sent with the right admin key: the
  type check passes and the bytes are encoded, but the insert names an identifier the
  module never declares, so the answer is the 500 of the \<^verbatim>\<open>catch\<close> block and nothing
  is stored. The lemmas above show the same for every request: the handler never
  answers 200 and never changes the database.
\<close>

theorem send_media_valid_upload_fails:
  "allowedTypes ''photo'' = Own [''image/jpeg'', ''image/png'', ''image/webp''] \<and>
   base64 (buffer png_upload) = ''iVBORw=='' \<and>
   admin_route ''s3cret'' ObjectId 7 (Some ''s3cret'')
      (Post_send_media [png_upload] (Some ''hello'') (Some ''photo'')) db0 =
     (Response 500 (Error ''Failed to send VIP media''), db0)"
  by (simp add: admin_route_def adminAuth_def falsy_def str_def post_vip_send_media_def
        png_upload_def allowedTypes_def resolve_vipPhotosCollection b64_def base64_alphabet_def)

end
